theory Spec2Isabelle
  imports Complex_Main "HOL-Library.Word"
begin

unbundle bit_operations_syntax

section \<open>The heater controller firmware\<close>

text \<open>
  The repository holds two Arduino sketches of the same five-state heater controller:
  the LM75 sketch (I2C sensor, heater pin 8, warning LED on pin 13, a global overheat
  check after the \<open>switch\<close>) and the TMP36 sketch of \<open>Project 1/Sourcecode1.cpp\<close>
  (analog sensor, heater pin 8, overheat checks inside the cases). Both keep their state
  in two globals, \<open>currentState\<close> and \<open>stateStartTime\<close>, and drive output pins with
  \<open>digitalWrite\<close>.

  The globals and the output pins are the fields of one record that every function takes
  and returns. \<open>pins\<close> is the level each output pin drives (\<open>True\<close> is \<open>HIGH\<close>);
  \<open>pinWrites\<close> lists the \<open>digitalWrite\<close> calls made so far, oldest first.
  \<open>unsigned long\<close> is 32 bits wide on the Arduino boards, so time stamps are
  \<open>32 word\<close> and \<open>millis() - stateStartTime\<close> wraps around.

  What the environment supplies is a parameter: the value a call of \<open>millis()\<close>
  returns, and the \<open>float\<close> that \<open>readTemperature()\<close> returns. Temperatures are
  real numbers: every finite \<open>float\<close> is one, the thresholds and their differences
  (40, 2, 50 and 38; 30, 40, 28 and 25) are floats, and \<open>loop\<close> does nothing with a
  temperature but compare it with them. The diagnostic output on \<open>Serial\<close>,
  \<open>pinMode\<close> and the blocking \<open>delay\<close> at the end of \<open>loop\<close> do not touch the
  globals or the pin levels and are left out.
\<close>

datatype State = IDLE | HEATING | STABILIZING | TARGET_REACHED | OVERHEAT

type_synonym HeaterState = State

record board =
  currentState :: State
  stateStartTime :: "32 word"
  pins :: "nat \<Rightarrow> bool"
  pinWrites :: "(nat \<times> bool) list"

text \<open>
  One pass through \<open>loop\<close> calls \<open>millis()\<close> at up to three places, and the clock may
  move between them: in the dwell-time comparison of the \<open>STABILIZING\<close> case, in the
  \<open>changeState\<close> call of the case's own transition, and in the \<open>changeState\<close> call
  of the overheat check.
\<close>

record millis_reads =
  at_dwell :: "32 word"
  at_switch :: "32 word"
  at_override :: "32 word"

definition digitalWrite :: "nat \<Rightarrow> bool \<Rightarrow> board \<Rightarrow> board" where
  "digitalWrite pin val s =
     s\<lparr>pins := (pins s)(pin := val), pinWrites := pinWrites s @ [(pin, val)]\<rparr>"

text \<open>\<open>changeState\<close> is the same in both sketches; \<open>now\<close> is what its \<open>millis()\<close> returns.\<close>

definition changeState :: "State \<Rightarrow> 32 word \<Rightarrow> board \<Rightarrow> board" where
  "changeState newState now s = s\<lparr>currentState := newState, stateStartTime := now\<rparr>"

text \<open>The globals as their initialisers leave them, on a board whose outputs are all low.\<close>

definition all_low :: "nat \<Rightarrow> bool" where
  "all_low pin = False"

definition power_on :: board where
  "power_on = \<lparr>currentState = IDLE, stateStartTime = 0, pins = all_low, pinWrites = []\<rparr>"

subsection \<open>The LM75 sketch\<close>

definition heaterPin :: nat where
  "heaterPin = 8"

definition ledPin :: nat where
  "ledPin = 13"

definition targetTemp :: real where
  "targetTemp = 40.0"

definition hysteresis :: real where
  "hysteresis = 2.0"

definition overheatTemp :: real where
  "overheatTemp = 50.0"

definition stabilizingTime :: "32 word" where
  "stabilizingTime = 5000"

text \<open>
  \<open>readTemperature\<close> takes the bytes that \<open>Wire.requestFrom\<close> received:
  \<open>Wire.available()\<close> is their number and \<open>Wire.read()\<close> takes them in order.
  \<open>tempRaw\<close> is the expression \<open>((msb << 8) | lsb) >> 7\<close> stored in an \<open>int16_t\<close>,
  computed in the 16-bit \<open>int\<close> of the AVR boards with the arithmetic right shift of
  their compiler. \<open>tempRaw * 0.5\<close> is exact in floating point, so the result is the
  real number it denotes.
\<close>

definition tempRaw :: "8 word \<Rightarrow> 8 word \<Rightarrow> 16 word" where
  "tempRaw msb lsb = signed_drop_bit 7 (push_bit 8 (ucast msb) OR ucast lsb)"

definition readTemperature :: "8 word list \<Rightarrow> real" where
  "readTemperature rx =
     (if length rx \<ge> 2
      then (let msb = rx ! 0; lsb = rx ! 1;
                temperature = real_of_int (sint (tempRaw msb lsb)) * 0.5
            in temperature)
      else - 100.0)"

definition controlHeater :: "bool \<Rightarrow> board \<Rightarrow> board" where
  "controlHeater turnOn s =
     (if turnOn = True then digitalWrite heaterPin True s
      else digitalWrite heaterPin False s)"

text \<open>
  The sketch's \<open>setup\<close>, after \<open>pinMode\<close>, calls \<open>changeState(IDLE)\<close>; \<open>now\<close>
  is what \<open>millis()\<close> returns there.
\<close>

definition setup_lm75 :: "32 word \<Rightarrow> board \<Rightarrow> board" where
  "setup_lm75 now s = changeState IDLE now s"

text \<open>
  \<open>loop temp m s\<close> is one pass through \<open>loop\<close> from the globals and pins \<open>s\<close>, where
  \<open>temp\<close> is what the call of \<open>readTemperature()\<close> in its first line returned.
\<close>

definition loop :: "real \<Rightarrow> millis_reads \<Rightarrow> board \<Rightarrow> board" where
  "loop temp m s =
     (let s1 =
        (case currentState s of
           IDLE \<Rightarrow>
             if temp < targetTemp - hysteresis
             then changeState HEATING (at_switch m) s
             else s
         | HEATING \<Rightarrow>
             let h = controlHeater True s
             in if temp \<ge> targetTemp
                then changeState STABILIZING (at_switch m) h
                else h
         | STABILIZING \<Rightarrow>
             let h = controlHeater False s
             in if at_dwell m - stateStartTime h \<ge> stabilizingTime
                then changeState TARGET_REACHED (at_switch m) h
                else h
         | TARGET_REACHED \<Rightarrow>
             let h = controlHeater False s
             in if temp < targetTemp - hysteresis
                then changeState HEATING (at_switch m) h
                else h
         | OVERHEAT \<Rightarrow>
             let h = digitalWrite ledPin True (controlHeater False s)
             in if temp < targetTemp
                then changeState IDLE (at_switch m) (digitalWrite ledPin False h)
                else h)
      in if temp \<ge> overheatTemp \<and> currentState s1 \<noteq> OVERHEAT
         then changeState OVERHEAT (at_override m) s1
         else s1)"

subsection \<open>The TMP36 sketch\<close>

definition HEATER_PIN :: nat where
  "HEATER_PIN = 8"

definition targetTemp_tmp36 :: real where
  "targetTemp_tmp36 = 30.0"

definition overheatTemp_tmp36 :: real where
  "overheatTemp_tmp36 = 40.0"

definition stabilizingTime_tmp36 :: "32 word" where
  "stabilizingTime_tmp36 = 5000"

text \<open>
  The TMP36 sketch's \<open>readTemperature\<close>: \<open>analogValue\<close> is what \<open>analogRead\<close>
  returns, a 10-bit conversion result from 0 to 1023. The sketch computes
  \<open>analogValue * (5.0 / 1023.0)\<close> and \<open>(voltage - 0.5) * 100\<close> in floating point;
  \<open>rnd\<close> is the distance of the \<open>float\<close> it returns from the exact value. With
  values below 500 and 24-bit mantissas the roundings add up to less than 0.001; the
  theorems need no more than \<open>\<bar>rnd\<bar> \<le> 0.01\<close>.
\<close>

definition readTemperature_tmp36 :: "int \<Rightarrow> real \<Rightarrow> real" where
  "readTemperature_tmp36 analogValue rnd =
     (let voltage = real_of_int analogValue * (5.0 / 1023.0)
      in (voltage - 0.5) * 100) + rnd"

text \<open>The TMP36 sketch's \<open>setup\<close> drives the heater pin low before \<open>changeState(IDLE)\<close>.\<close>

definition setup_tmp36 :: "32 word \<Rightarrow> board \<Rightarrow> board" where
  "setup_tmp36 now s = changeState IDLE now (digitalWrite HEATER_PIN False s)"

text \<open>
  \<open>loop_tmp36 temperature m s\<close> is one pass through the TMP36 sketch's \<open>loop\<close>, where
  \<open>temperature\<close> is the \<open>float\<close> its \<open>readTemperature()\<close> computed from the analog
  reading. A case may call \<open>changeState\<close>
  twice: \<open>at_switch\<close> is the clock value read by the call for the case's own
  transition and \<open>at_override\<close> the one read by the call for overheating after it.
\<close>

definition loop_tmp36 :: "real \<Rightarrow> millis_reads \<Rightarrow> board \<Rightarrow> board" where
  "loop_tmp36 temperature m s =
     (case currentState s of
        IDLE \<Rightarrow>
          let h = digitalWrite HEATER_PIN False s
          in if temperature < targetTemp_tmp36
             then changeState HEATING (at_switch m) h
             else h
      | HEATING \<Rightarrow>
          let h = digitalWrite HEATER_PIN True s;
              h1 = (if temperature \<ge> targetTemp_tmp36
                    then changeState STABILIZING (at_switch m) h
                    else h)
          in if temperature > overheatTemp_tmp36
             then changeState OVERHEAT (at_override m) h1
             else h1
      | STABILIZING \<Rightarrow>
          let h = digitalWrite HEATER_PIN False s;
              h1 = (if at_dwell m - stateStartTime h \<ge> stabilizingTime_tmp36
                    then changeState TARGET_REACHED (at_switch m) h
                    else h)
          in if temperature > overheatTemp_tmp36
             then changeState OVERHEAT (at_override m) h1
             else h1
      | TARGET_REACHED \<Rightarrow>
          let h = digitalWrite HEATER_PIN False s;
              h1 = (if temperature < targetTemp_tmp36 - 2
                    then changeState HEATING (at_switch m) h
                    else h)
          in if temperature > overheatTemp_tmp36
             then changeState OVERHEAT (at_override m) h1
             else h1
      | OVERHEAT \<Rightarrow>
          let h = digitalWrite HEATER_PIN False s
          in if temperature < targetTemp_tmp36 - 5
             then changeState IDLE (at_switch m) h
             else h)"

subsection \<open>Runs and reference inputs\<close>

text \<open>A clock that shows the same time at all three calls of one pass.\<close>

definition clock_at :: "32 word \<Rightarrow> millis_reads" where
  "clock_at t = \<lparr>at_dwell = t, at_switch = t, at_override = t\<rparr>"

text \<open>The clock of pass \<open>n\<close> when the passes follow each other every 500 ms.\<close>

definition steady_clock :: "nat \<Rightarrow> millis_reads" where
  "steady_clock n = clock_at (word_of_nat (500 * (n + 1)))"

text \<open>
  \<open>ticks tick temp clk s n\<close> is the board after \<open>n\<close> passes of \<open>tick\<close> (one of the two
  \<open>loop\<close> functions) from \<open>s\<close>, every pass reading the same temperature and pass \<open>i\<close>
  reading the clock values \<open>clk i\<close>.
\<close>

primrec ticks ::
  "(real \<Rightarrow> millis_reads \<Rightarrow> board \<Rightarrow> board) \<Rightarrow> real \<Rightarrow> (nat \<Rightarrow> millis_reads) \<Rightarrow> board \<Rightarrow> nat \<Rightarrow> board"
where
  "ticks tick temp clk s 0 = s"
| "ticks tick temp clk s (Suc n) = tick temp (clk n) (ticks tick temp clk s n)"

text \<open>
  The position of a state in the order in which a constant temperature lets the states
  follow each other; the order depends only on whether the temperature is below the
  target.
\<close>

fun rank :: "bool \<Rightarrow> State \<Rightarrow> nat" where
  "rank True OVERHEAT = 0"
| "rank True IDLE = 1"
| "rank True STABILIZING = 2"
| "rank True TARGET_REACHED = 3"
| "rank True HEATING = 4"
| "rank False HEATING = 0"
| "rank False STABILIZING = 1"
| "rank False TARGET_REACHED = 2"
| "rank False IDLE = 3"
| "rank False OVERHEAT = 4"

text \<open>
  The next state in the order the specification words it (steps 2 and 3 of \<open>tick\<close> and
  its state table), with the thresholds of the LM75 sketch: the global override first,
  otherwise the predicate of the current state. \<open>elapsed\<close> is \<open>now - stateEnteredAt\<close>.
\<close>

definition spec_tick_state :: "real \<Rightarrow> 32 word \<Rightarrow> State \<Rightarrow> State" where
  "spec_tick_state temperature elapsed S =
     (if temperature \<ge> overheatTemp \<and> S \<noteq> OVERHEAT then OVERHEAT
      else case S of
             IDLE \<Rightarrow> if temperature < targetTemp - hysteresis then HEATING else IDLE
           | HEATING \<Rightarrow> if temperature \<ge> targetTemp then STABILIZING else HEATING
           | STABILIZING \<Rightarrow> if elapsed \<ge> stabilizingTime then TARGET_REACHED else STABILIZING
           | TARGET_REACHED \<Rightarrow>
               if temperature < targetTemp - hysteresis then HEATING else TARGET_REACHED
           | OVERHEAT \<Rightarrow> if temperature < targetTemp then IDLE else OVERHEAT)"

text \<open>
  Boards reached from power-on by \<open>setup\<close> and passes through \<open>loop\<close>, used as
  concrete inputs: the LM75 sketch after a reading of 35 (heating), then 41
  (stabilizing since 1000 ms) or 51 (overheated); the TMP36 sketch after a reading of 25
  (heating), then 31 (stabilizing since 2000 ms).
\<close>

definition idle_board :: board where
  "idle_board = setup_lm75 0 power_on"

definition heating_board :: board where
  "heating_board = loop 35 (clock_at 500) idle_board"

definition stabilizing_board :: board where
  "stabilizing_board = loop 41 (clock_at 1000) heating_board"

definition overheat_board :: board where
  "overheat_board = loop 51 (clock_at 1000) heating_board"

definition idle_board_tmp36 :: board where
  "idle_board_tmp36 = setup_tmp36 0 power_on"

definition heating_board_tmp36 :: board where
  "heating_board_tmp36 = loop_tmp36 25 (clock_at 1000) idle_board_tmp36"

definition stabilizing_board_tmp36 :: board where
  "stabilizing_board_tmp36 = loop_tmp36 31 (clock_at 2000) heating_board_tmp36"

section \<open>Basic facts\<close>

lemma changeState_fields:
  "currentState (changeState n t s) = n"
  "stateStartTime (changeState n t s) = t"
  "pins (changeState n t s) = pins s"
  "pinWrites (changeState n t s) = pinWrites s"
  by (simp_all add: changeState_def)

lemma digitalWrite_fields:
  "currentState (digitalWrite p v s) = currentState s"
  "stateStartTime (digitalWrite p v s) = stateStartTime s"
  "pins (digitalWrite p v s) = (pins s)(p := v)"
  "pinWrites (digitalWrite p v s) = pinWrites s @ [(p, v)]"
  by (simp_all add: digitalWrite_def)

lemma controlHeater_fields:
  "currentState (controlHeater b s) = currentState s"
  "stateStartTime (controlHeater b s) = stateStartTime s"
  "pins (controlHeater b s) = (pins s)(heaterPin := b)"
  "pinWrites (controlHeater b s) = pinWrites s @ [(heaterPin, b)]"
  by (simp_all add: controlHeater_def digitalWrite_fields)

lemmas board_fields = changeState_fields digitalWrite_fields controlHeater_fields

lemmas lm75_consts = targetTemp_def hysteresis_def overheatTemp_def stabilizingTime_def
  heaterPin_def ledPin_def

lemmas tmp36_consts = targetTemp_tmp36_def overheatTemp_tmp36_def stabilizingTime_tmp36_def
  HEATER_PIN_def

lemmas sample_inputs = power_on_def all_low_def clock_at_def setup_lm75_def setup_tmp36_def

lemmas loop_eval = loop_def loop_tmp36_def Let_def board_fields lm75_consts tmp36_consts

lemma idle_board_eq:
  "idle_board = \<lparr>currentState = IDLE, stateStartTime = 0, pins = all_low, pinWrites = []\<rparr>"
  by (simp add: idle_board_def sample_inputs changeState_def)

lemma heating_board_eq:
  "heating_board
     = \<lparr>currentState = HEATING, stateStartTime = 500, pins = all_low, pinWrites = []\<rparr>"
  by (simp add: heating_board_def idle_board_eq loop_def Let_def lm75_consts clock_at_def
      changeState_def)

lemma stabilizing_board_eq:
  "stabilizing_board
     = \<lparr>currentState = STABILIZING, stateStartTime = 1000, pins = all_low(8 := True),
        pinWrites = [(8, True)]\<rparr>"
  by (simp add: stabilizing_board_def heating_board_eq loop_def Let_def lm75_consts clock_at_def
      changeState_def controlHeater_def digitalWrite_def)

lemma overheat_board_eq:
  "overheat_board
     = \<lparr>currentState = OVERHEAT, stateStartTime = 1000, pins = all_low(8 := True),
        pinWrites = [(8, True)]\<rparr>"
  by (simp add: overheat_board_def heating_board_eq loop_def Let_def lm75_consts clock_at_def
      changeState_def controlHeater_def digitalWrite_def)

lemma idle_board_tmp36_eq:
  "idle_board_tmp36
     = \<lparr>currentState = IDLE, stateStartTime = 0, pins = all_low(8 := False),
        pinWrites = [(8, False)]\<rparr>"
  by (simp add: idle_board_tmp36_def sample_inputs changeState_def digitalWrite_def HEATER_PIN_def)

lemma heating_board_tmp36_eq:
  "heating_board_tmp36
     = \<lparr>currentState = HEATING, stateStartTime = 1000, pins = all_low(8 := False),
        pinWrites = [(8, False), (8, False)]\<rparr>"
  by (simp add: heating_board_tmp36_def idle_board_tmp36_eq loop_tmp36_def Let_def tmp36_consts
      clock_at_def changeState_def digitalWrite_def)

lemma stabilizing_board_tmp36_eq:
  "stabilizing_board_tmp36
     = \<lparr>currentState = STABILIZING, stateStartTime = 2000, pins = all_low(8 := True),
        pinWrites = [(8, False), (8, False), (8, True)]\<rparr>"
  by (simp add: stabilizing_board_tmp36_def heating_board_tmp36_eq loop_tmp36_def Let_def
      tmp36_consts clock_at_def changeState_def digitalWrite_def)

lemmas sample_boards = idle_board_eq heating_board_eq stabilizing_board_eq overheat_board_eq
  idle_board_tmp36_eq heating_board_tmp36_eq stabilizing_board_tmp36_eq

lemma rank_inj: "rank b x = rank b y \<Longrightarrow> x = y"
  by (cases b; cases x; cases y) simp_all

lemma loop_rank:
  "rank (temp < targetTemp) (currentState s)
     \<le> rank (temp < targetTemp) (currentState (loop temp m s))"
  by (cases "currentState s"; cases "temp < targetTemp")
     (auto simp add: loop_def Let_def board_fields lm75_consts)

lemma loop_tmp36_rank:
  "rank (temp < targetTemp_tmp36) (currentState s)
     \<le> rank (temp < targetTemp_tmp36) (currentState (loop_tmp36 temp m s))"
  by (cases "currentState s"; cases "temp < targetTemp_tmp36")
     (auto simp add: loop_tmp36_def Let_def board_fields tmp36_consts)

text \<open>
  No analog reading gives exactly the overheat limit of the TMP36 sketch: a conversion
  result of 184 reads as 39.93 and one of 185 as 40.42.
\<close>

lemma readTemperature_tmp36_not_limit:
  assumes "\<bar>rnd\<bar> \<le> 1 / 100"
  shows "readTemperature_tmp36 analogValue rnd \<ge> overheatTemp_tmp36
         \<longleftrightarrow> readTemperature_tmp36 analogValue rnd > overheatTemp_tmp36"
proof (cases "analogValue \<le> 184")
  case True
  then have "real_of_int analogValue \<le> 184"
    by simp
  then have "readTemperature_tmp36 analogValue rnd < overheatTemp_tmp36"
    using assms
    by (simp add: readTemperature_tmp36_def overheatTemp_tmp36_def Let_def field_simps)
  then show ?thesis
    by simp
next
  case False
  then have "185 \<le> analogValue"
    by simp
  then have "185 \<le> real_of_int analogValue"
    by linarith
  then have "readTemperature_tmp36 analogValue rnd > overheatTemp_tmp36"
    using assms
    by (simp add: readTemperature_tmp36_def overheatTemp_tmp36_def Let_def field_simps)
  then show ?thesis
    by simp
qed

lemma mono_chain:
  fixes f :: "nat \<Rightarrow> nat"
  assumes step: "\<And>n. f n \<le> f (Suc n)" and le: "i \<le> j"
  shows "f i \<le> f j"
  using le
proof (induction j)
  case 0
  then show ?case by simp
next
  case (Suc j)
  show ?case
  proof (cases "i = Suc j")
    case True
    then show ?thesis by simp
  next
    case False
    with Suc.prems have "i \<le> j" by simp
    then have "f i \<le> f j" by (rule Suc.IH)
    also have "f j \<le> f (Suc j)" by (rule step)
    finally show ?thesis .
  qed
qed

lemma mono_bounded_settles:
  fixes f :: "nat \<Rightarrow> nat"
  assumes step: "\<And>n. f n \<le> f (Suc n)" and bound: "\<And>n. f n \<le> B"
  shows "\<exists>n. \<forall>k\<ge>n. f k = f n"
proof -
  have fin: "finite (range f)"
    by (rule finite_subset [of _ "{..B}"]) (use bound in auto)
  have "Max (range f) \<in> range f"
    by (rule Max_in [OF fin]) simp
  then obtain n where n: "f n = Max (range f)"
    by auto
  have "f k = f n" if "n \<le> k" for k
  proof -
    have "f k \<le> Max (range f)"
      by (rule Max_ge [OF fin]) simp
    with mono_chain [of f, OF step that] n show ?thesis
      by simp
  qed
  then show ?thesis
    by blast
qed

lemma rank_le: "rank b x \<le> 4"
  by (cases b; cases x) simp_all

text \<open>
  A pass function under which the rank never drops cannot come back to a state it has
  left, and its state settles.
\<close>

lemma ticks_no_return:
  assumes up: "\<And>m s. rank b (currentState s) \<le> rank b (currentState (tick temp m s))"
    and "i \<le> j" and "j \<le> k"
    and same: "currentState (ticks tick temp clk s i) = currentState (ticks tick temp clk s k)"
  shows "currentState (ticks tick temp clk s j) = currentState (ticks tick temp clk s i)"
proof -
  let ?r = "\<lambda>n. rank b (currentState (ticks tick temp clk s n))"
  have step: "?r n \<le> ?r (Suc n)" for n
    by (simp add: up)
  have "?r i \<le> ?r j"
    by (rule mono_chain [of ?r, OF step \<open>i \<le> j\<close>])
  moreover have "?r j \<le> ?r k"
    by (rule mono_chain [of ?r, OF step \<open>j \<le> k\<close>])
  ultimately have "?r j = ?r i"
    using same by simp
  then show ?thesis
    by (rule rank_inj)
qed

lemma ticks_settle:
  assumes up: "\<And>m s. rank b (currentState s) \<le> rank b (currentState (tick temp m s))"
  shows "\<exists>n. \<forall>k\<ge>n. currentState (ticks tick temp clk s k)
                 = currentState (ticks tick temp clk s n)"
proof -
  let ?r = "\<lambda>n. rank b (currentState (ticks tick temp clk s n))"
  have step: "?r n \<le> ?r (Suc n)" for n
    by (simp add: up)
  have "\<exists>n. \<forall>k\<ge>n. ?r k = ?r n"
    by (rule mono_bounded_settles [of ?r 4, OF step rank_le])
  then obtain n where "\<forall>k\<ge>n. ?r k = ?r n"
    by blast
  then have "\<forall>k\<ge>n. currentState (ticks tick temp clk s k)
               = currentState (ticks tick temp clk s n)"
    by (blast intro: rank_inj)
  then show ?thesis ..
qed

section \<open>The overheat override\<close>

text \<open>
  C1, as the code has it. In the LM75 sketch, from every state other than \<open>OVERHEAT\<close>
  and for every clock, a temperature at or above \<open>overheatTemp\<close> makes one pass end in
  \<open>OVERHEAT\<close>, time-stamped by the override's own \<open>changeState\<close>. The check stands
  after the \<open>switch\<close> and overwrites whatever transition the case made, so the state a
  pass ends in is the one that evaluating the override first would give
  (\<open>spec_tick_state\<close>). In the TMP36 sketch the same holds from \<open>HEATING\<close>,
  \<open>STABILIZING\<close> and \<open>TARGET_REACHED\<close>, whose cases end with the overheat check: for
  every analog reading whose temperature is at or above \<open>overheatTemp\<close> the pass ends
  in \<open>OVERHEAT\<close>, time-stamped by the check's \<open>changeState\<close>. Its \<open>IDLE\<close> case is
  left out.
\<close>

theorem C1_overheat_override:
  "(currentState s \<noteq> OVERHEAT \<and> temp \<ge> overheatTemp \<longrightarrow>
      currentState (loop temp m s) = OVERHEAT
      \<and> stateStartTime (loop temp m s) = at_override m)
   \<and> currentState (loop temp m s)
       = spec_tick_state temp (at_dwell m - stateStartTime s) (currentState s)
   \<and> (currentState s \<in> {HEATING, STABILIZING, TARGET_REACHED}
        \<and> 0 \<le> analogValue \<and> analogValue \<le> 1023 \<and> \<bar>rnd\<bar> \<le> 1 / 100
        \<and> readTemperature_tmp36 analogValue rnd \<ge> overheatTemp_tmp36 \<longrightarrow>
        currentState (loop_tmp36 (readTemperature_tmp36 analogValue rnd) m s) = OVERHEAT
        \<and> stateStartTime (loop_tmp36 (readTemperature_tmp36 analogValue rnd) m s)
            = at_override m)"
proof -
  have lm75: "(currentState s \<noteq> OVERHEAT \<and> temp \<ge> overheatTemp \<longrightarrow>
      currentState (loop temp m s) = OVERHEAT
      \<and> stateStartTime (loop temp m s) = at_override m)
   \<and> currentState (loop temp m s)
       = spec_tick_state temp (at_dwell m - stateStartTime s) (currentState s)"
    by (cases "currentState s") (auto simp add: spec_tick_state_def loop_eval)
  have tmp36: "currentState (loop_tmp36 t m s) = OVERHEAT
        \<and> stateStartTime (loop_tmp36 t m s) = at_override m"
    if "currentState s \<in> {HEATING, STABILIZING, TARGET_REACHED}"
      and "t > overheatTemp_tmp36" for t
    using that by (auto simp add: loop_eval)
  show ?thesis
    using lm75 tmp36 [of "readTemperature_tmp36 analogValue rnd"]
      readTemperature_tmp36_not_limit [of rnd analogValue]
    by blast
qed

theorem C1_overheat_override_witness:
  "currentState heating_board \<noteq> OVERHEAT \<and> (51::real) \<ge> overheatTemp
   \<and> currentState (loop 51 (clock_at 1000) heating_board) = OVERHEAT
   \<and> stateStartTime (loop 51 (clock_at 1000) heating_board) = 1000
   \<and> currentState heating_board_tmp36 \<in> {HEATING, STABILIZING, TARGET_REACHED}
   \<and> (0::int) \<le> 195 \<and> (195::int) \<le> 1023 \<and> \<bar>0::real\<bar> \<le> 1 / 100
   \<and> readTemperature_tmp36 195 0 \<ge> overheatTemp_tmp36
   \<and> currentState
        (loop_tmp36 (readTemperature_tmp36 195 0) (clock_at 2000) heating_board_tmp36)
       = OVERHEAT
   \<and> stateStartTime
        (loop_tmp36 (readTemperature_tmp36 195 0) (clock_at 2000) heating_board_tmp36)
       = 2000"
  using C1_overheat_override [of heating_board 51 "clock_at 1000" 195 0]
    C1_overheat_override [of heating_board_tmp36 51 "clock_at 2000" 195 0]
  by (simp add: sample_boards clock_at_def lm75_consts tmp36_consts readTemperature_tmp36_def)

text \<open>
  C1 as stated fails on the TMP36 sketch, whose \<open>IDLE\<close> case has no overheat check:
  at 45 degrees, above the limit of 40, an idle controller stays idle.
\<close>

theorem C1_tmp36_counterexample:
  "currentState idle_board_tmp36 \<noteq> OVERHEAT
   \<and> (45::real) \<ge> overheatTemp_tmp36
   \<and> currentState (loop_tmp36 45 (clock_at 1000) idle_board_tmp36) = IDLE"
  by (simp add: sample_boards clock_at_def loop_eval)

section \<open>Heater and warning outputs\<close>

text \<open>
  C2, as the code has it. Each case of the \<open>switch\<close> writes its outputs before it
  decides on a transition, so what a pass commands follows the state the pass starts
  in. A pass that starts in \<open>OVERHEAT\<close> commands the heater off, whatever the
  temperature, and leaves the state \<open>OVERHEAT\<close> and the warning LED on exactly as long
  as the recovery predicate \<open>temp < targetTemp\<close> does not hold. After a pass of the
  LM75 sketch the heater pin is high if the pass started in \<open>HEATING\<close>, unchanged if
  it started in \<open>IDLE\<close>, and low otherwise; after a pass of the TMP36 sketch it is high
  exactly if the pass started in \<open>HEATING\<close>.
\<close>

theorem C2_heater_follows_starting_state:
  "(currentState s = OVERHEAT \<longrightarrow>
      \<not> pins (loop temp m s) heaterPin
      \<and> (currentState (loop temp m s) = OVERHEAT \<longleftrightarrow> temp \<ge> targetTemp)
      \<and> (pins (loop temp m s) ledPin \<longleftrightarrow> temp \<ge> targetTemp))
   \<and> pins (loop temp m s) heaterPin
       = (case currentState s of
            IDLE \<Rightarrow> pins s heaterPin | HEATING \<Rightarrow> True | _ \<Rightarrow> False)
   \<and> pins (loop_tmp36 temp m s) HEATER_PIN = (currentState s = HEATING)"
  by (cases "currentState s") (auto simp add: loop_eval)

theorem C2_heater_follows_starting_state_witness:
  "currentState overheat_board = OVERHEAT
   \<and> \<not> pins (loop 45 (clock_at 1500) overheat_board) heaterPin
   \<and> currentState (loop 45 (clock_at 1500) overheat_board) = OVERHEAT
   \<and> pins (loop 45 (clock_at 1500) overheat_board) ledPin
   \<and> pins (loop_tmp36 31 (clock_at 2000) heating_board_tmp36) HEATER_PIN"
  using C2_heater_follows_starting_state [of overheat_board 45 "clock_at 1500"]
    C2_heater_follows_starting_state [of heating_board_tmp36 31 "clock_at 2000"]
  by (simp add: sample_boards lm75_consts)

text \<open>
  C2 as stated fails on the LM75 sketch. A pass that ends in \<open>HEATING\<close> leaves the
  heater off when it came from \<open>IDLE\<close> and on when it started in \<open>HEATING\<close>, so the
  output is no function of the resulting state. And a heating controller that reads 51
  ends the pass in \<open>OVERHEAT\<close> with the heater pin high and the warning LED off; they
  stay so until the next pass.
\<close>

theorem C2_resulting_state_counterexample:
  "currentState (loop 35 (clock_at 500) idle_board) = HEATING
   \<and> \<not> pins (loop 35 (clock_at 500) idle_board) heaterPin
   \<and> currentState (loop 35 (clock_at 1000) heating_board) = HEATING
   \<and> pins (loop 35 (clock_at 1000) heating_board) heaterPin
   \<and> currentState (loop 51 (clock_at 1000) heating_board) = OVERHEAT
   \<and> pins (loop 51 (clock_at 1000) heating_board) heaterPin
   \<and> \<not> pins (loop 51 (clock_at 1000) heating_board) ledPin"
  by (simp add: sample_boards all_low_def clock_at_def loop_eval)

section \<open>A failed sensor read\<close>

text \<open>
  C3. A failed sensor read should make the pass report a sensor error and leave the
  state and the heater and warning outputs as they were. The LM75 sketch does not do
  so. When fewer than two bytes arrive, its \<open>readTemperature\<close> returns -100.0, by its
  own comment an error value that indicates the failure, and \<open>loop\<close> never tests for
  it. From the idle board with the heater off, a pass whose read fails moves to
  \<open>HEATING\<close>; the next pass, failing again, stays in \<open>HEATING\<close> and drives the
  heater pin high, and so does every failing pass after it.
\<close>

theorem C3_failed_read_changes_state:
  "length ([] :: 8 word list) < 2
   \<and> readTemperature [] = - 100
   \<and> currentState idle_board = IDLE
   \<and> \<not> pins idle_board heaterPin
   \<and> currentState (loop (readTemperature []) (clock_at 500) idle_board) = HEATING
   \<and> currentState (loop (readTemperature []) (clock_at 1000)
        (loop (readTemperature []) (clock_at 500) idle_board)) = HEATING
   \<and> pins (loop (readTemperature []) (clock_at 1000)
        (loop (readTemperature []) (clock_at 500) idle_board)) heaterPin
   \<and> currentState (loop (readTemperature []) (clock_at 1500)
        (loop (readTemperature []) (clock_at 1000)
          (loop (readTemperature []) (clock_at 500) idle_board))) = HEATING
   \<and> pins (loop (readTemperature []) (clock_at 1500)
        (loop (readTemperature []) (clock_at 1000)
          (loop (readTemperature []) (clock_at 500) idle_board))) heaterPin"
  by (simp add: sample_boards all_low_def clock_at_def readTemperature_def loop_eval)

text \<open>
  C9. In the LM75 sketch a failed read gives -100.0, which is below
  \<open>targetTemp - hysteresis\<close>; a pass that starts in \<open>IDLE\<close> or \<open>TARGET_REACHED\<close>
  with such a read ends in \<open>HEATING\<close>, and the pass after it, whatever it reads,
  writes the heater pin high.
\<close>

theorem C9_failed_read_starts_heating:
  assumes "length rx < 2"
  shows "readTemperature rx = - 100.0
       \<and> readTemperature rx < targetTemp - hysteresis
       \<and> (currentState s = IDLE \<or> currentState s = TARGET_REACHED \<longrightarrow>
            currentState (loop (readTemperature rx) m s) = HEATING
            \<and> pins (loop temp' m' (loop (readTemperature rx) m s)) heaterPin
            \<and> pinWrites (loop temp' m' (loop (readTemperature rx) m s))
                = pinWrites (loop (readTemperature rx) m s) @ [(heaterPin, True)])"
  using assms
  by (auto simp add: readTemperature_def loop_eval)

theorem C9_failed_read_starts_heating_witness:
  "length [0x19 :: 8 word] < 2
   \<and> readTemperature [0x19] = - 100
   \<and> currentState idle_board = IDLE
   \<and> currentState (loop (readTemperature [0x19]) (clock_at 500) idle_board) = HEATING
   \<and> pins (loop 20 (clock_at 1000) (loop (readTemperature [0x19]) (clock_at 500) idle_board))
        heaterPin"
proof -
  have h: "length [0x19 :: 8 word] < 2"
    by simp
  show ?thesis
    using h C9_failed_read_starts_heating [OF h, of idle_board "clock_at 500" 20 "clock_at 1000"]
    by (simp add: sample_boards readTemperature_def)
qed

section \<open>The transitions of the single states\<close>

text \<open>
  C4, as the code has it. In the LM75 sketch a pass that starts in \<open>IDLE\<close> ends in
  \<open>HEATING\<close> exactly when the temperature is below \<open>targetTemp - hysteresis\<close>; it
  stays in \<open>IDLE\<close> when the temperature is at least that and below
  \<open>overheatTemp\<close>, and ends in \<open>OVERHEAT\<close> from \<open>overheatTemp\<close> on. In the TMP36
  sketch the \<open>IDLE\<close> case compares with the bare target: the pass ends in \<open>HEATING\<close>
  exactly when the temperature is below \<open>targetTemp\<close> and stays in \<open>IDLE\<close> otherwise.
\<close>

theorem C4_idle_transition:
  "(currentState s = IDLE \<longrightarrow>
      (currentState (loop temp m s) = HEATING \<longleftrightarrow> temp < targetTemp - hysteresis)
      \<and> (targetTemp - hysteresis \<le> temp \<and> temp < overheatTemp \<longrightarrow>
           currentState (loop temp m s) = IDLE)
      \<and> (overheatTemp \<le> temp \<longrightarrow> currentState (loop temp m s) = OVERHEAT))
   \<and> (currentState s = IDLE \<longrightarrow>
      (currentState (loop_tmp36 temp m s) = HEATING \<longleftrightarrow> temp < targetTemp_tmp36)
      \<and> (targetTemp_tmp36 \<le> temp \<longrightarrow> currentState (loop_tmp36 temp m s) = IDLE))"
  by (auto simp add: loop_eval)

theorem C4_idle_transition_witness:
  "currentState idle_board = IDLE
   \<and> targetTemp - hysteresis \<le> (38::real) \<and> (38::real) < overheatTemp
   \<and> currentState (loop 38 (clock_at 500) idle_board) = IDLE
   \<and> currentState (loop 37.5 (clock_at 500) idle_board) = HEATING
   \<and> currentState idle_board_tmp36 = IDLE
   \<and> targetTemp_tmp36 \<le> (30::real)
   \<and> currentState (loop_tmp36 30 (clock_at 1000) idle_board_tmp36) = IDLE"
  using C4_idle_transition [of idle_board 38 "clock_at 500"]
    C4_idle_transition [of idle_board "37.5" "clock_at 500"]
    C4_idle_transition [of idle_board_tmp36 30 "clock_at 1000"]
  by (simp add: sample_boards lm75_consts tmp36_consts)

text \<open>
  C4 as stated fails in both sketches. An idle LM75 controller that reads 51, which is
  not below \<open>targetTemp - hysteresis\<close>, does not stay idle but ends in \<open>OVERHEAT\<close>.
  An idle TMP36 controller that reads 29, inside the deadband of 2 below the target of
  30, starts heating.
\<close>

theorem C4_idle_counterexample:
  "currentState idle_board = IDLE
   \<and> (51::real) \<ge> targetTemp - hysteresis
   \<and> currentState (loop 51 (clock_at 500) idle_board) = OVERHEAT
   \<and> currentState idle_board_tmp36 = IDLE
   \<and> (29::real) \<ge> targetTemp_tmp36 - 2
   \<and> currentState (loop_tmp36 29 (clock_at 1000) idle_board_tmp36) = HEATING"
  by (simp add: sample_boards clock_at_def loop_eval)

text \<open>
  C5, as the code has it. While the temperature is below \<open>overheatTemp\<close> (in the TMP36
  sketch: not above it), a pass that starts in \<open>STABILIZING\<close> ends in
  \<open>TARGET_REACHED\<close> if and only if \<open>millis() - stateStartTime\<close>, the unsigned 32-bit
  difference, is at least \<open>stabilizingTime\<close>; before that the state stays
  \<open>STABILIZING\<close> and keeps its time stamp, however far above the target the
  temperature is.
\<close>

theorem C5_stabilizing_dwell:
  "(currentState s = STABILIZING \<and> temp < overheatTemp \<longrightarrow>
      (currentState (loop temp m s) = TARGET_REACHED
         \<longleftrightarrow> at_dwell m - stateStartTime s \<ge> stabilizingTime)
      \<and> (at_dwell m - stateStartTime s < stabilizingTime \<longrightarrow>
           currentState (loop temp m s) = STABILIZING
           \<and> stateStartTime (loop temp m s) = stateStartTime s))
   \<and> (currentState s = STABILIZING \<and> temp \<le> overheatTemp_tmp36 \<longrightarrow>
      (currentState (loop_tmp36 temp m s) = TARGET_REACHED
         \<longleftrightarrow> at_dwell m - stateStartTime s \<ge> stabilizingTime_tmp36)
      \<and> (at_dwell m - stateStartTime s < stabilizingTime_tmp36 \<longrightarrow>
           currentState (loop_tmp36 temp m s) = STABILIZING
           \<and> stateStartTime (loop_tmp36 temp m s) = stateStartTime s))"
  by (auto simp add: loop_eval)

theorem C5_stabilizing_dwell_witness:
  "currentState stabilizing_board = STABILIZING \<and> (49.5::real) < overheatTemp
   \<and> at_dwell (clock_at 5999) - stateStartTime stabilizing_board < stabilizingTime
   \<and> currentState (loop 49.5 (clock_at 5999) stabilizing_board) = STABILIZING
   \<and> stateStartTime (loop 49.5 (clock_at 5999) stabilizing_board) = 1000
   \<and> at_dwell (clock_at 6000) - stateStartTime stabilizing_board \<ge> stabilizingTime
   \<and> currentState (loop 49.5 (clock_at 6000) stabilizing_board) = TARGET_REACHED
   \<and> currentState stabilizing_board_tmp36 = STABILIZING \<and> (40::real) \<le> overheatTemp_tmp36
   \<and> at_dwell (clock_at 6999) - stateStartTime stabilizing_board_tmp36 < stabilizingTime_tmp36
   \<and> currentState (loop_tmp36 40 (clock_at 6999) stabilizing_board_tmp36) = STABILIZING
   \<and> currentState (loop_tmp36 40 (clock_at 7000) stabilizing_board_tmp36) = TARGET_REACHED"
  using C5_stabilizing_dwell [of stabilizing_board "49.5" "clock_at 5999"]
    C5_stabilizing_dwell [of stabilizing_board "49.5" "clock_at 6000"]
    C5_stabilizing_dwell [of stabilizing_board_tmp36 40 "clock_at 6999"]
    C5_stabilizing_dwell [of stabilizing_board_tmp36 40 "clock_at 7000"]
  by (simp add: sample_boards clock_at_def lm75_consts tmp36_consts)

text \<open>
  C5 as stated fails on the LM75 sketch at a temperature far above the target: a
  controller stabilizing since 1000 ms that reads 51 ends the pass in \<open>OVERHEAT\<close>,
  both at 1500 ms, before the dwell time is over, and at 6000 ms, when it is.
\<close>

theorem C5_stabilizing_counterexample:
  "currentState stabilizing_board = STABILIZING
   \<and> at_dwell (clock_at 1500) - stateStartTime stabilizing_board < stabilizingTime
   \<and> currentState (loop 51 (clock_at 1500) stabilizing_board) = OVERHEAT
   \<and> at_dwell (clock_at 6000) - stateStartTime stabilizing_board \<ge> stabilizingTime
   \<and> currentState (loop 51 (clock_at 6000) stabilizing_board) = OVERHEAT"
  by (simp add: sample_boards clock_at_def loop_eval)

text \<open>
  C6. A pass that starts in \<open>OVERHEAT\<close> ends in \<open>IDLE\<close> with the warning LED low
  exactly when the temperature is below the recovery threshold, and otherwise stays in
  \<open>OVERHEAT\<close> with the LED high. The threshold is \<open>targetTemp\<close>, 40.0, in the LM75
  sketch, so a reading of 39.9 recovers; it is \<open>targetTemp - 5\<close> in the TMP36 sketch,
  which has no warning output.
\<close>

theorem C6_overheat_recovery:
  assumes "currentState s = OVERHEAT"
  shows "(currentState (loop temp m s) = IDLE \<longleftrightarrow> temp < targetTemp)
       \<and> (\<not> pins (loop temp m s) ledPin \<longleftrightarrow> temp < targetTemp)
       \<and> (temp \<ge> targetTemp \<longrightarrow>
            currentState (loop temp m s) = OVERHEAT \<and> pins (loop temp m s) ledPin)
       \<and> targetTemp = 40.0
       \<and> currentState (loop 39.9 m s) = IDLE \<and> \<not> pins (loop 39.9 m s) ledPin
       \<and> (currentState (loop_tmp36 temp m s) = IDLE \<longleftrightarrow> temp < targetTemp_tmp36 - 5)
       \<and> (temp \<ge> targetTemp_tmp36 - 5 \<longrightarrow> currentState (loop_tmp36 temp m s) = OVERHEAT)"
  using assms by (simp add: loop_eval)

theorem C6_overheat_recovery_witness:
  "currentState overheat_board = OVERHEAT
   \<and> currentState (loop 39.5 (clock_at 1500) overheat_board) = IDLE
   \<and> \<not> pins (loop 39.5 (clock_at 1500) overheat_board) ledPin
   \<and> currentState (loop 39.9 (clock_at 1500) overheat_board) = IDLE
   \<and> \<not> pins (loop 39.9 (clock_at 1500) overheat_board) ledPin"
proof -
  have h: "currentState overheat_board = OVERHEAT"
    by (simp add: sample_boards)
  show ?thesis
    using h C6_overheat_recovery [OF h, of "39.5" "clock_at 1500"]
    by (simp add: lm75_consts)
qed

section \<open>The time stamp\<close>

text \<open>
  C7. \<open>changeState\<close> is the only writer of \<open>currentState\<close> and of
  \<open>stateStartTime\<close> and sets both. In either sketch a pass through \<open>loop\<close> that
  ends in another state than it started in leaves the time stamp at the clock value one
  of its \<open>changeState\<close> calls read, and a pass that ends in the state it started in
  leaves the time stamp as it was. (\<open>setup\<close> creates the first state, \<open>IDLE\<close>, with
  its time stamp.)
\<close>

theorem C7_timestamp_paired_with_state:
  "currentState (changeState newState now s) = newState
   \<and> stateStartTime (changeState newState now s) = now
   \<and> (currentState (loop temp m s) \<noteq> currentState s \<longrightarrow>
        stateStartTime (loop temp m s) = at_switch m
        \<or> stateStartTime (loop temp m s) = at_override m)
   \<and> (currentState (loop temp m s) = currentState s \<longrightarrow>
        stateStartTime (loop temp m s) = stateStartTime s)
   \<and> (currentState (loop_tmp36 temp m s) \<noteq> currentState s \<longrightarrow>
        stateStartTime (loop_tmp36 temp m s) = at_switch m
        \<or> stateStartTime (loop_tmp36 temp m s) = at_override m)
   \<and> (currentState (loop_tmp36 temp m s) = currentState s \<longrightarrow>
        stateStartTime (loop_tmp36 temp m s) = stateStartTime s)"
  by (cases "currentState s") (auto simp add: loop_eval)

theorem C7_timestamp_paired_with_state_witness:
  "currentState (loop 41 \<lparr>at_dwell = 1000, at_switch = 1001, at_override = 1002\<rparr> heating_board)
     \<noteq> currentState heating_board
   \<and> stateStartTime (loop 41 \<lparr>at_dwell = 1000, at_switch = 1001, at_override = 1002\<rparr> heating_board)
     = 1001
   \<and> currentState (loop 39 (clock_at 1000) heating_board) = currentState heating_board
   \<and> stateStartTime (loop 39 (clock_at 1000) heating_board) = 500
   \<and> currentState (loop_tmp36 45 \<lparr>at_dwell = 2000, at_switch = 2001, at_override = 2002\<rparr>
        heating_board_tmp36) \<noteq> currentState heating_board_tmp36
   \<and> stateStartTime (loop_tmp36 45 \<lparr>at_dwell = 2000, at_switch = 2001, at_override = 2002\<rparr>
        heating_board_tmp36) = 2002
   \<and> currentState (loop_tmp36 29 (clock_at 2000) heating_board_tmp36)
     = currentState heating_board_tmp36
   \<and> stateStartTime (loop_tmp36 29 (clock_at 2000) heating_board_tmp36) = 1000"
  using C7_timestamp_paired_with_state
      [of _ _ heating_board 41 "\<lparr>at_dwell = 1000, at_switch = 1001, at_override = 1002\<rparr>"]
    C7_timestamp_paired_with_state [of _ _ heating_board 39 "clock_at 1000"]
    C7_timestamp_paired_with_state
      [of _ _ heating_board_tmp36 45 "\<lparr>at_dwell = 2000, at_switch = 2001, at_override = 2002\<rparr>"]
    C7_timestamp_paired_with_state [of _ _ heating_board_tmp36 29 "clock_at 2000"]
  by (simp add: sample_boards clock_at_def loop_eval)

section \<open>Constant temperature\<close>

text \<open>
  C8. Let every pass read the same temperature, with any sequence of clock readings
  (an advancing clock among them). In either sketch the states then never oscillate: if
  the state after \<open>i\<close> passes is met again after \<open>k\<close> passes, every pass in between
  ended in that state too, so no state is entered again once it has been left; and
  from some pass on the state stays the same for ever.
\<close>

theorem C8_constant_temperature_settles:
  "(i \<le> j \<and> j \<le> k
      \<and> currentState (ticks loop temp clk s i) = currentState (ticks loop temp clk s k)
      \<longrightarrow> currentState (ticks loop temp clk s j) = currentState (ticks loop temp clk s i))
   \<and> (\<exists>n. \<forall>k\<ge>n. currentState (ticks loop temp clk s k)
                   = currentState (ticks loop temp clk s n))
   \<and> (i \<le> j \<and> j \<le> k
      \<and> currentState (ticks loop_tmp36 temp clk s i)
          = currentState (ticks loop_tmp36 temp clk s k)
      \<longrightarrow> currentState (ticks loop_tmp36 temp clk s j)
          = currentState (ticks loop_tmp36 temp clk s i))
   \<and> (\<exists>n. \<forall>k\<ge>n. currentState (ticks loop_tmp36 temp clk s k)
                   = currentState (ticks loop_tmp36 temp clk s n))"
proof (intro conjI impI)
  assume "i \<le> j \<and> j \<le> k
    \<and> currentState (ticks loop temp clk s i) = currentState (ticks loop temp clk s k)"
  then show "currentState (ticks loop temp clk s j) = currentState (ticks loop temp clk s i)"
    using ticks_no_return [of "temp < targetTemp" loop temp i j k clk s, OF loop_rank]
    by blast
next
  show "\<exists>n. \<forall>k\<ge>n. currentState (ticks loop temp clk s k)
                 = currentState (ticks loop temp clk s n)"
    by (rule ticks_settle [of "temp < targetTemp" loop temp, OF loop_rank])
next
  assume "i \<le> j \<and> j \<le> k
    \<and> currentState (ticks loop_tmp36 temp clk s i)
        = currentState (ticks loop_tmp36 temp clk s k)"
  then show "currentState (ticks loop_tmp36 temp clk s j)
               = currentState (ticks loop_tmp36 temp clk s i)"
    using ticks_no_return
      [of "temp < targetTemp_tmp36" loop_tmp36 temp i j k clk s, OF loop_tmp36_rank]
    by blast
next
  show "\<exists>n. \<forall>k\<ge>n. currentState (ticks loop_tmp36 temp clk s k)
                 = currentState (ticks loop_tmp36 temp clk s n)"
    by (rule ticks_settle [of "temp < targetTemp_tmp36" loop_tmp36 temp, OF loop_tmp36_rank])
qed

theorem C8_constant_temperature_settles_witness:
  "Suc 0 \<le> Suc (Suc 0) \<and> Suc (Suc 0) \<le> Suc (Suc (Suc 0))
   \<and> currentState (ticks loop 45 steady_clock heating_board (Suc 0)) = STABILIZING
   \<and> currentState (ticks loop 45 steady_clock heating_board (Suc (Suc (Suc 0)))) = STABILIZING
   \<and> currentState (ticks loop 45 steady_clock heating_board (Suc (Suc 0))) = STABILIZING"
  using C8_constant_temperature_settles
    [of "Suc 0" "Suc (Suc 0)" "Suc (Suc (Suc 0))" 45 steady_clock heating_board]
  by (simp add: sample_boards steady_clock_def clock_at_def loop_eval)

section \<open>The idle case of the LM75 sketch\<close>

text \<open>
  C10. In the LM75 sketch a pass through \<open>loop\<close> that starts in \<open>IDLE\<close> makes no
  \<open>digitalWrite\<close> call at all, whatever the temperature and the clock: the list of pin
  writes and every pin level, the heater's among them, are those from before the pass.
  Its \<open>setup\<close> writes no pin either, so the heater pin keeps the level it was last
  given.
\<close>

theorem C10_idle_issues_no_heater_write:
  assumes "currentState s = IDLE"
  shows "pinWrites (loop temp m s) = pinWrites s
       \<and> pins (loop temp m s) = pins s
       \<and> pins (loop temp m s) heaterPin = pins s heaterPin
       \<and> pinWrites (setup_lm75 now s) = pinWrites s
       \<and> pins (setup_lm75 now s) = pins s"
  using assms by (simp add: loop_def setup_lm75_def Let_def board_fields)

theorem C10_idle_issues_no_heater_write_witness:
  "currentState power_on = IDLE
   \<and> pinWrites (loop 35 (clock_at 500) power_on) = []
   \<and> pins (loop 35 (clock_at 500) power_on) heaterPin = False"
proof -
  have h: "currentState power_on = IDLE"
    by (simp add: power_on_def)
  show ?thesis
    using h C10_idle_issues_no_heater_write [OF h, of 35 "clock_at 500" 0]
    by (simp add: power_on_def all_low_def)
qed

end
